theory Spec2Isabelle
  imports Main "HOL-Library.Word"
begin

unbundle bit_operations_syntax

section \<open>Python values: bytes, integers, exceptions\<close>

text \<open>
  A Python \<open>bytes\<close> object is a list of 8-bit words, a Python \<open>int\<close> is an \<open>int\<close>.
  Every exception the modelled code can raise is a value of \<open>error\<close>; a function that
  can raise returns \<open>error + 'a\<close> with \<open>Inl\<close> for the exception.
\<close>

type_synonym byte = "8 word"
type_synonym bytes = "byte list"

datatype error =
    LoRaError
  | ParseMessageError
  | MACCommandParseError
  | MACCommandCreateError
  | MHDRError
  | PHYPayloadError
  | MACPayloadError
  | MICError
  | ChMaskCntlError
  | ValueError
  | TypeError
  | IndexError
  | KeyError
  | OverflowError
  | StructError
  | NameError string

definition ebind :: "error + 'a \<Rightarrow> ('a \<Rightarrow> error + 'b) \<Rightarrow> error + 'b" where
  "ebind m f = (case m of Inl e \<Rightarrow> Inl e | Inr x \<Rightarrow> f x)"

text \<open>\<open>raw[i]\<close> for a non-negative literal index: the byte as an int, or IndexError.\<close>

definition byte_at :: "bytes \<Rightarrow> nat \<Rightarrow> error + int" where
  "byte_at raw i = (if i < length raw then Inr (uint (raw ! i)) else Inl IndexError)"

text \<open>\<open>bytes([a, b, ...])\<close>: every element must be in \<open>range(0, 256)\<close>, else ValueError.\<close>

definition in_byte_range :: "int \<Rightarrow> bool" where
  "in_byte_range x = (0 \<le> x \<and> x < 256)"

definition bytes_of :: "int list \<Rightarrow> error + bytes" where
  "bytes_of xs = (if list_all in_byte_range xs then Inr (map word_of_int xs) else Inl ValueError)"

text \<open>\<open>x.to_bytes(n, byteorder="little")\<close>: OverflowError when \<open>x\<close> is negative or too big.\<close>

fun le_bytes :: "nat \<Rightarrow> int \<Rightarrow> bytes" where
  "le_bytes 0 x = []"
| "le_bytes (Suc n) x = word_of_int (x mod 256) # le_bytes n (x div 256)"

definition to_bytes_le :: "nat \<Rightarrow> int \<Rightarrow> error + bytes" where
  "to_bytes_le n x = (if x < 0 \<or> 256 ^ n \<le> x then Inl OverflowError else Inr (le_bytes n x))"

text \<open>\<open>int.from_bytes(raw, byteorder="little")\<close>, defined on every length.\<close>

fun from_bytes_le :: "bytes \<Rightarrow> int" where
  "from_bytes_le [] = 0"
| "from_bytes_le (b # bs) = uint b + 256 * from_bytes_le bs"

text \<open>\<open>struct.pack("<L", x)\<close>, \<open>"<Q"\<close> and \<open>"<H"\<close>: struct.error when out of range.\<close>

definition struct_pack_le :: "nat \<Rightarrow> int \<Rightarrow> error + bytes" where
  "struct_pack_le n x = (if x < 0 \<or> 256 ^ n \<le> x then Inl StructError else Inr (le_bytes n x))"

text \<open>Python's \<open>int(b)\<close> of a bool, as used by \<open>b << k\<close> and \<open>bytes([.., b])\<close>.\<close>

definition int_of_bool :: "bool \<Rightarrow> int" where
  "int_of_bool b = (if b then 1 else 0)"

text \<open>Python's \<open>bool(x)\<close> of an int.\<close>

definition bool_of_int :: "int \<Rightarrow> bool" where
  "bool_of_int x = (x \<noteq> 0)"

section \<open>mac\_commands.py\<close>

text \<open>
  One constructor per command class, its arguments the instance attributes in the order
  of \<open>__init__\<close>. Constructors that mask their arguments are the \<open>_init\<close> functions.
\<close>

datatype MACCommand =
    LinkCheckReq
  | LinkADRAns (channel_mask_ack: bool) (datarate_ack: bool) (power_ack: bool)
  | DutyCycleAns
  | RXParamSetupAns (channel_ack: bool) (rx2_datarate_ack: bool) (rx1_datarate_offset_ack: bool)
  | DevStatusAns (battery: int) (margin: int)
  | NewChannelAns (channel_frequency_ack: bool) (datarate_range_ack: bool)
  | RXTimingSetupAns
  | TXParamSetupAns
  | DlChannelAns (channel_frequency_ok: bool) (uplink_frequency_exists: bool)
  | DeviceTimeReq
  | PingSlotInfoReq (periodicity: int)
  | BeaconFreqAns (status: bool)
  | PingSlotChannelAns (datarate_status: bool) (channel_frequency_status: bool)
  | PingSlotChannelReq (psc_datarate: int) (psc_frequency: int)
  | BeaconFreqReq (bf_frequency: int)
  | PingSlotInfoAns
  | LinkCheckAns (lc_margin: int) (gw_cnt: int)
  | LinkADRReq (tx_power: int) (adr_datarate: int) (ch_mask: int) (nb_trans: int) (ch_mask_cntl: int)
  | DutyCycleReq (max_dcycle: int)
  | RXParamSetupReq (rx2_datarate: int) (rx1_datarate_offset: int) (rx2_frequency: int)
  | DevStatusReq
  | NewChannelReq (nc_ch_index: int) (ch_frequency: int) (min_datarate: int) (max_datarate: int)
  | RXTimingSetupReq (delay: int)
  | TXParamSetupReq (max_eirp: int) (uplink_dwell_time: int) (downlink_dwell_time: int)
  | DlChannelReq (dl_ch_index: int) (freq: int)
  | DeviceTimeAns (seconds: int) (fractional_second: int)

text \<open>The classes themselves, as the dispatch table stores them.\<close>

datatype cmd_cls =
    C_LinkCheckReq | C_LinkADRAns | C_DutyCycleAns | C_RXParamSetupAns | C_DevStatusAns
  | C_NewChannelAns | C_RXTimingSetupAns | C_TXParamSetupAns | C_DlChannelAns
  | C_DeviceTimeReq | C_PingSlotInfoReq | C_BeaconFreqAns | C_PingSlotChannelAns
  | C_PingSlotChannelReq | C_BeaconFreqReq | C_PingSlotInfoAns | C_LinkCheckAns
  | C_LinkADRReq | C_DutyCycleReq | C_RXParamSetupReq | C_DevStatusReq | C_NewChannelReq
  | C_RXTimingSetupReq | C_TXParamSetupReq | C_DlChannelReq | C_DeviceTimeAns

fun CID :: "cmd_cls \<Rightarrow> int" where
  "CID C_LinkCheckReq = 0x02"
| "CID C_LinkADRAns = 0x03"
| "CID C_DutyCycleAns = 0x04"
| "CID C_RXParamSetupAns = 0x05"
| "CID C_DevStatusAns = 0x06"
| "CID C_NewChannelAns = 0x07"
| "CID C_RXTimingSetupAns = 0x08"
| "CID C_TXParamSetupAns = 0x09"
| "CID C_DlChannelAns = 0x0A"
| "CID C_DeviceTimeReq = 0x0D"
| "CID C_PingSlotInfoReq = 0x10"
| "CID C_BeaconFreqAns = 0x13"
| "CID C_PingSlotChannelAns = 0x11"
| "CID C_PingSlotChannelReq = 0x11"
| "CID C_BeaconFreqReq = 0x13"
| "CID C_PingSlotInfoAns = 0x10"
| "CID C_LinkCheckAns = 0x02"
| "CID C_LinkADRReq = 0x03"
| "CID C_DutyCycleReq = 0x04"
| "CID C_RXParamSetupReq = 0x05"
| "CID C_DevStatusReq = 0x06"
| "CID C_NewChannelReq = 0x07"
| "CID C_RXTimingSetupReq = 0x08"
| "CID C_TXParamSetupReq = 0x09"
| "CID C_DlChannelReq = 0x0A"
| "CID C_DeviceTimeAns = 0x0D"

fun SIZE :: "cmd_cls \<Rightarrow> nat" where
  "SIZE C_LinkCheckReq = 0"
| "SIZE C_LinkADRAns = 1"
| "SIZE C_DutyCycleAns = 0"
| "SIZE C_RXParamSetupAns = 1"
| "SIZE C_DevStatusAns = 2"
| "SIZE C_NewChannelAns = 1"
| "SIZE C_RXTimingSetupAns = 0"
| "SIZE C_TXParamSetupAns = 0"
| "SIZE C_DlChannelAns = 1"
| "SIZE C_DeviceTimeReq = 0"
| "SIZE C_PingSlotInfoReq = 1"
| "SIZE C_BeaconFreqAns = 1"
| "SIZE C_PingSlotChannelAns = 1"
| "SIZE C_PingSlotChannelReq = 1"
| "SIZE C_BeaconFreqReq = 3"
| "SIZE C_PingSlotInfoAns = 0"
| "SIZE C_LinkCheckAns = 2"
| "SIZE C_LinkADRReq = 4"
| "SIZE C_DutyCycleReq = 1"
| "SIZE C_RXParamSetupReq = 4"
| "SIZE C_DevStatusReq = 0"
| "SIZE C_NewChannelReq = 5"
| "SIZE C_RXTimingSetupReq = 1"
| "SIZE C_TXParamSetupReq = 1"
| "SIZE C_DlChannelReq = 4"
| "SIZE C_DeviceTimeAns = 5"

fun cls_of :: "MACCommand \<Rightarrow> cmd_cls" where
  "cls_of LinkCheckReq = C_LinkCheckReq"
| "cls_of (LinkADRAns _ _ _) = C_LinkADRAns"
| "cls_of DutyCycleAns = C_DutyCycleAns"
| "cls_of (RXParamSetupAns _ _ _) = C_RXParamSetupAns"
| "cls_of (DevStatusAns _ _) = C_DevStatusAns"
| "cls_of (NewChannelAns _ _) = C_NewChannelAns"
| "cls_of RXTimingSetupAns = C_RXTimingSetupAns"
| "cls_of TXParamSetupAns = C_TXParamSetupAns"
| "cls_of (DlChannelAns _ _) = C_DlChannelAns"
| "cls_of DeviceTimeReq = C_DeviceTimeReq"
| "cls_of (PingSlotInfoReq _) = C_PingSlotInfoReq"
| "cls_of (BeaconFreqAns _) = C_BeaconFreqAns"
| "cls_of (PingSlotChannelAns _ _) = C_PingSlotChannelAns"
| "cls_of (PingSlotChannelReq _ _) = C_PingSlotChannelReq"
| "cls_of (BeaconFreqReq _) = C_BeaconFreqReq"
| "cls_of PingSlotInfoAns = C_PingSlotInfoAns"
| "cls_of (LinkCheckAns _ _) = C_LinkCheckAns"
| "cls_of (LinkADRReq _ _ _ _ _) = C_LinkADRReq"
| "cls_of (DutyCycleReq _) = C_DutyCycleReq"
| "cls_of (RXParamSetupReq _ _ _) = C_RXParamSetupReq"
| "cls_of DevStatusReq = C_DevStatusReq"
| "cls_of (NewChannelReq _ _ _ _) = C_NewChannelReq"
| "cls_of (RXTimingSetupReq _) = C_RXTimingSetupReq"
| "cls_of (TXParamSetupReq _ _ _) = C_TXParamSetupReq"
| "cls_of (DlChannelReq _ _) = C_DlChannelReq"
| "cls_of (DeviceTimeAns _ _) = C_DeviceTimeAns"

subsection \<open>Constructors that mask their arguments\<close>

definition PingSlotInfoReq_init :: "int \<Rightarrow> MACCommand" where
  "PingSlotInfoReq_init p = PingSlotInfoReq (p AND 0x07)"

definition PingSlotChannelReq_init :: "int \<Rightarrow> int \<Rightarrow> MACCommand" where
  "PingSlotChannelReq_init dr fr = PingSlotChannelReq (dr AND 0x0F) (fr AND 0xFFFFFF)"

definition BeaconFreqReq_init :: "int \<Rightarrow> MACCommand" where
  "BeaconFreqReq_init fr = BeaconFreqReq (fr AND 0xFFFFFF)"

definition RXTimingSetupReq_init :: "int \<Rightarrow> MACCommand" where
  "RXTimingSetupReq_init d = RXTimingSetupReq (d AND 0x0F)"

definition TXParamSetupReq_init :: "int \<Rightarrow> int \<Rightarrow> int \<Rightarrow> MACCommand" where
  "TXParamSetupReq_init e u d = TXParamSetupReq (e AND 0x0F) (u AND 1) (d AND 1)"

subsection \<open>\<open>parse\<close> of each class\<close>

text \<open>
  The base class \<open>MACCommand.parse\<close> ignores its argument and returns \<open>cls()\<close>; the
  classes with fields override it. Arguments are evaluated left to right, so the first
  failing index decides the exception.
\<close>

definition LinkADRAns_parse :: "bytes \<Rightarrow> error + MACCommand" where
  "LinkADRAns_parse raw =
     ebind (byte_at raw 0) (\<lambda>b0.
       Inr (LinkADRAns (bool_of_int (b0 AND 1)) (bool_of_int (b0 AND 2)) (bool_of_int (b0 AND 4))))"

definition RXParamSetupAns_parse :: "bytes \<Rightarrow> error + MACCommand" where
  "RXParamSetupAns_parse raw =
     ebind (byte_at raw 0) (\<lambda>b0.
       Inr (RXParamSetupAns (bool_of_int (b0 AND 1)) (bool_of_int (b0 AND 2)) (bool_of_int (b0 AND 4))))"

definition DevStatusAns_parse :: "bytes \<Rightarrow> error + MACCommand" where
  "DevStatusAns_parse raw =
     ebind (byte_at raw 1) (\<lambda>b1.
       let margin = b1 AND 0b11111 in
       ebind (byte_at raw 0) (\<lambda>b0.
         Inr (DevStatusAns b0 (if bool_of_int (b1 AND 0b100000) then - margin - 1 else margin))))"

definition NewChannelAns_parse :: "bytes \<Rightarrow> error + MACCommand" where
  "NewChannelAns_parse raw =
     ebind (byte_at raw 0) (\<lambda>b0.
       Inr (NewChannelAns (bool_of_int (b0 AND 1)) (bool_of_int (b0 AND 2))))"

definition DlChannelAns_parse :: "bytes \<Rightarrow> error + MACCommand" where
  "DlChannelAns_parse raw =
     ebind (byte_at raw 0) (\<lambda>b0.
       Inr (DlChannelAns (bool_of_int (b0 AND 1)) (bool_of_int (b0 AND 2))))"

definition PingSlotInfoReq_parse :: "bytes \<Rightarrow> error + MACCommand" where
  "PingSlotInfoReq_parse raw = Inr (PingSlotInfoReq_init (from_bytes_le raw))"

definition BeaconFreqAns_parse :: "bytes \<Rightarrow> error + MACCommand" where
  "BeaconFreqAns_parse raw = Inr (BeaconFreqAns (bool_of_int (from_bytes_le raw AND 1)))"

definition PingSlotChannelAns_parse :: "bytes \<Rightarrow> error + MACCommand" where
  "PingSlotChannelAns_parse raw =
     ebind (byte_at raw 0) (\<lambda>b0.
       let dr_status = bool_of_int (b0 AND 2); freq_status = bool_of_int (b0 AND 1)
       in Inr (PingSlotChannelAns dr_status freq_status))"

definition PingSlotChannelReq_parse :: "bytes \<Rightarrow> error + MACCommand" where
  "PingSlotChannelReq_parse raw =
     (let freq = from_bytes_le (take 3 raw) in
      ebind (byte_at raw 3) (\<lambda>b3.
        let datarate = b3 AND 0x0F in Inr (PingSlotChannelReq_init datarate freq)))"

definition BeaconFreqReq_parse :: "bytes \<Rightarrow> error + MACCommand" where
  "BeaconFreqReq_parse raw = Inr (BeaconFreqReq_init (from_bytes_le raw))"

definition LinkCheckAns_parse :: "bytes \<Rightarrow> error + MACCommand" where
  "LinkCheckAns_parse raw =
     ebind (byte_at raw 0) (\<lambda>b0. ebind (byte_at raw 1) (\<lambda>b1. Inr (LinkCheckAns b0 b1)))"

definition LinkADRReq_parse :: "bytes \<Rightarrow> error + MACCommand" where
  "LinkADRReq_parse raw =
     ebind (byte_at raw 0) (\<lambda>b0.
       ebind (byte_at raw 3) (\<lambda>b3.
         Inr (LinkADRReq (b0 AND 0x0F) (drop_bit 4 b0) (from_bytes_le (take 2 (drop 1 raw)))
                (b3 AND 0x0F) (drop_bit 4 b3 AND 0b111))))"

definition DutyCycleReq_parse :: "bytes \<Rightarrow> error + MACCommand" where
  "DutyCycleReq_parse raw = ebind (byte_at raw 0) (\<lambda>b0. Inr (DutyCycleReq b0))"

definition RXParamSetupReq_parse :: "bytes \<Rightarrow> error + MACCommand" where
  "RXParamSetupReq_parse raw =
     ebind (byte_at raw 0) (\<lambda>b0.
       Inr (RXParamSetupReq (b0 AND 0x0F) (drop_bit 4 b0 AND 0x07)
              (from_bytes_le (take 3 (drop 1 raw)))))"

definition NewChannelReq_parse :: "bytes \<Rightarrow> error + MACCommand" where
  "NewChannelReq_parse raw =
     ebind (byte_at raw 0) (\<lambda>b0.
       ebind (byte_at raw 4) (\<lambda>b4.
         Inr (NewChannelReq b0 (from_bytes_le (take 3 (drop 1 raw)))
                (b4 AND 0x0F) (drop_bit 4 b4 AND 0x0F))))"

definition RXTimingSetupReq_parse :: "bytes \<Rightarrow> error + MACCommand" where
  "RXTimingSetupReq_parse raw = ebind (byte_at raw 0) (\<lambda>b0. Inr (RXTimingSetupReq_init b0))"

definition TXParamSetupReq_parse :: "bytes \<Rightarrow> error + MACCommand" where
  "TXParamSetupReq_parse raw =
     (if length raw \<noteq> SIZE C_TXParamSetupReq then Inl MACCommandParseError
      else ebind (byte_at raw 0) (\<lambda>b0.
        Inr (TXParamSetupReq_init (b0 AND 0x0F) (drop_bit 4 b0 AND 1) (drop_bit 5 b0 AND 1))))"

definition DlChannelReq_parse :: "bytes \<Rightarrow> error + MACCommand" where
  "DlChannelReq_parse raw =
     ebind (byte_at raw 0) (\<lambda>b0. Inr (DlChannelReq b0 (from_bytes_le (drop 1 raw))))"

definition DeviceTimeAns_parse :: "bytes \<Rightarrow> error + MACCommand" where
  "DeviceTimeAns_parse raw =
     ebind (byte_at raw 4) (\<lambda>b4. Inr (DeviceTimeAns (from_bytes_le (take 4 raw)) b4))"

fun cls_parse :: "cmd_cls \<Rightarrow> bytes \<Rightarrow> error + MACCommand" where
  "cls_parse C_LinkCheckReq raw = Inr LinkCheckReq"
| "cls_parse C_LinkADRAns raw = LinkADRAns_parse raw"
| "cls_parse C_DutyCycleAns raw = Inr DutyCycleAns"
| "cls_parse C_RXParamSetupAns raw = RXParamSetupAns_parse raw"
| "cls_parse C_DevStatusAns raw = DevStatusAns_parse raw"
| "cls_parse C_NewChannelAns raw = NewChannelAns_parse raw"
| "cls_parse C_RXTimingSetupAns raw = Inr RXTimingSetupAns"
| "cls_parse C_TXParamSetupAns raw = Inr TXParamSetupAns"
| "cls_parse C_DlChannelAns raw = DlChannelAns_parse raw"
| "cls_parse C_DeviceTimeReq raw = Inr DeviceTimeReq"
| "cls_parse C_PingSlotInfoReq raw = PingSlotInfoReq_parse raw"
| "cls_parse C_BeaconFreqAns raw = BeaconFreqAns_parse raw"
| "cls_parse C_PingSlotChannelAns raw = PingSlotChannelAns_parse raw"
| "cls_parse C_PingSlotChannelReq raw = PingSlotChannelReq_parse raw"
| "cls_parse C_BeaconFreqReq raw = BeaconFreqReq_parse raw"
| "cls_parse C_PingSlotInfoAns raw = Inr PingSlotInfoAns"
| "cls_parse C_LinkCheckAns raw = LinkCheckAns_parse raw"
| "cls_parse C_LinkADRReq raw = LinkADRReq_parse raw"
| "cls_parse C_DutyCycleReq raw = DutyCycleReq_parse raw"
| "cls_parse C_RXParamSetupReq raw = RXParamSetupReq_parse raw"
| "cls_parse C_DevStatusReq raw = Inr DevStatusReq"
| "cls_parse C_NewChannelReq raw = NewChannelReq_parse raw"
| "cls_parse C_RXTimingSetupReq raw = RXTimingSetupReq_parse raw"
| "cls_parse C_TXParamSetupReq raw = TXParamSetupReq_parse raw"
| "cls_parse C_DlChannelReq raw = DlChannelReq_parse raw"
| "cls_parse C_DeviceTimeAns raw = DeviceTimeAns_parse raw"

subsection \<open>\<open>generate\<close> of each class\<close>

text \<open>
  A size-0 command is its CID byte (\<open>MACCommand.generate\<close>). In Python \<open>&\<close> binds
  tighter than \<open>|\<close> and \<open><<\<close> tighter than \<open>&\<close>; the brackets below are the
  ones Python puts.
\<close>

definition cid_only :: "cmd_cls \<Rightarrow> error + bytes" where
  "cid_only c = to_bytes_le 1 (CID c)"

definition bytes_cat :: "error + bytes \<Rightarrow> error + bytes \<Rightarrow> error + bytes" where
  "bytes_cat a b = ebind a (\<lambda>x. ebind b (\<lambda>y. Inr (x @ y)))"

fun generate :: "MACCommand \<Rightarrow> error + bytes" where
  "generate LinkCheckReq = cid_only C_LinkCheckReq"
| "generate (LinkADRAns cm dr pw) =
     bytes_of [CID C_LinkADRAns,
       push_bit 2 (int_of_bool pw) OR push_bit 1 (int_of_bool dr) OR int_of_bool cm]"
| "generate DutyCycleAns = cid_only C_DutyCycleAns"
| "generate (RXParamSetupAns ch r2 r1) =
     bytes_of [CID C_RXParamSetupAns,
       push_bit 2 (int_of_bool r1) OR push_bit 1 (int_of_bool r2) OR int_of_bool ch]"
| "generate (DevStatusAns bat mg) =
     bytes_of [CID C_DevStatusAns, bat,
       (if mg > 0 then mg AND 0b11111 else ((- mg - 1) AND 0b11111) OR 0b100000)]"
| "generate (NewChannelAns cf dr) =
     bytes_of [CID C_NewChannelAns, push_bit 1 (int_of_bool dr) OR int_of_bool cf]"
| "generate RXTimingSetupAns = cid_only C_RXTimingSetupAns"
| "generate TXParamSetupAns = cid_only C_TXParamSetupAns"
| "generate (DlChannelAns ok ex) =
     bytes_of [CID C_DlChannelAns, push_bit 1 (int_of_bool ex) OR int_of_bool ok]"
| "generate DeviceTimeReq = cid_only C_DeviceTimeReq"
| "generate (PingSlotInfoReq p) = bytes_of [CID C_PingSlotInfoReq, p]"
| "generate (BeaconFreqAns st) = bytes_of [CID C_BeaconFreqAns, int_of_bool st]"
| "generate (PingSlotChannelAns ds cs) =
     bytes_of [CID C_PingSlotChannelAns, push_bit 1 (int_of_bool ds) OR int_of_bool cs]"
| "generate (PingSlotChannelReq dr fr) =
     bytes_cat (bytes_cat (to_bytes_le 1 (CID C_PingSlotChannelReq)) (to_bytes_le 3 fr))
       (to_bytes_le 1 dr)"
| "generate (BeaconFreqReq fr) =
     bytes_cat (to_bytes_le 1 (CID C_BeaconFreqReq)) (to_bytes_le 3 fr)"
| "generate PingSlotInfoAns = cid_only C_PingSlotInfoAns"
| "generate (LinkCheckAns mg gw) = bytes_of [CID C_LinkCheckAns, mg, gw]"
| "generate (LinkADRReq tp dr cm nb cc) =
     bytes_of [CID C_LinkADRReq,
       (tp AND 0x0F) OR push_bit 4 (dr AND 0x0F),
       cm AND 0xFF,
       drop_bit 8 cm AND 0xFF,
       (nb AND 0x0F) OR push_bit 4 (cc AND 0b111)]"
| "generate (DutyCycleReq d) = bytes_of [CID C_DutyCycleReq, d]"
| "generate (RXParamSetupReq r2 r1 fr) =
     bytes_cat (bytes_of [CID C_RXParamSetupReq, (r2 AND 0x0F) OR push_bit 4 (r1 AND 0x07)])
       (to_bytes_le 3 fr)"
| "generate DevStatusReq = cid_only C_DevStatusReq"
| "generate (NewChannelReq ci cf mn mx) =
     bytes_cat (bytes_cat (bytes_of [CID C_NewChannelReq, ci]) (to_bytes_le 3 cf))
       (bytes_of [(mn AND 0x0F) OR push_bit 4 (mx AND 0x0F)])"
| "generate (RXTimingSetupReq d) = bytes_of [CID C_RXTimingSetupReq, d]"
| "generate (TXParamSetupReq e u d) =
     bytes_of [CID C_TXParamSetupReq, push_bit 5 d OR push_bit 4 u OR e]"
| "generate (DlChannelReq ci fr) =
     bytes_cat (bytes_of [CID C_DlChannelReq, ci]) (to_bytes_le 3 fr)"
| "generate (DeviceTimeAns s f) =
     bytes_cat (bytes_cat (to_bytes_le 1 (CID C_DeviceTimeAns)) (to_bytes_le 4 s))
       (to_bytes_le 1 f)"

subsection \<open>\<open>MACCommandParser\<close>\<close>

datatype MACCommandDirection = UP | DOWN

text \<open>\<open>mac_commands_map.get(direction, {}).get(command_id, None)\<close>.\<close>

definition mac_commands_map :: "MACCommandDirection \<Rightarrow> int \<rightharpoonup> cmd_cls" where
  "mac_commands_map d =
     (case d of
        UP \<Rightarrow> map_of
          [(0x02, C_LinkCheckReq), (0x03, C_LinkADRAns), (0x04, C_DutyCycleAns),
           (0x05, C_RXParamSetupAns), (0x06, C_DevStatusAns), (0x07, C_NewChannelAns),
           (0x08, C_RXTimingSetupAns), (0x09, C_TXParamSetupAns), (0x0A, C_DlChannelAns),
           (0x0D, C_DeviceTimeReq), (0x10, C_PingSlotInfoReq), (0x11, C_PingSlotChannelAns),
           (0x13, C_BeaconFreqAns)]
      | DOWN \<Rightarrow> map_of
          [(0x02, C_LinkCheckAns), (0x03, C_LinkADRReq), (0x04, C_DutyCycleReq),
           (0x05, C_RXParamSetupReq), (0x06, C_DevStatusReq), (0x07, C_NewChannelReq),
           (0x08, C_RXTimingSetupReq), (0x09, C_TXParamSetupReq), (0x0A, C_DlChannelReq),
           (0x0D, C_DeviceTimeAns), (0x10, C_PingSlotInfoAns), (0x11, C_PingSlotChannelReq),
           (0x13, C_BeaconFreqReq)])"

text \<open>
  The stream is the list of bytes not yet read. \<open>readinto\<close> of a buffer of \<open>n\<close> bytes
  takes up to \<open>n\<close> of them; \<open>read\<close> raises when fewer than \<open>SIZE\<close> came.
\<close>

definition read :: "cmd_cls \<Rightarrow> bytes \<Rightarrow> error + bytes" where
  "read cmd_cls input_stream =
     (let cmd_buffer = take (SIZE cmd_cls) input_stream;
          read_size = length cmd_buffer
      in if read_size < SIZE cmd_cls then Inl MACCommandParseError else Inr cmd_buffer)"

definition create :: "bytes \<Rightarrow> int \<Rightarrow> MACCommandDirection \<Rightarrow> error + MACCommand" where
  "create commands_stream command_id direction =
     (case mac_commands_map direction command_id of
        None \<Rightarrow> Inl MACCommandCreateError
      | Some cmd_cls \<Rightarrow> ebind (read cmd_cls commands_stream) (cls_parse cmd_cls))"

text \<open>
  What \<open>create\<close> leaves of the stream when it returns: \<open>readinto\<close> has consumed the
  command's \<open>SIZE\<close> bytes.
\<close>

definition stream_after :: "bytes \<Rightarrow> int \<Rightarrow> MACCommandDirection \<Rightarrow> bytes" where
  "stream_after commands_stream command_id direction =
     (case mac_commands_map direction command_id of
        None \<Rightarrow> commands_stream
      | Some cmd_cls \<Rightarrow> drop (SIZE cmd_cls) commands_stream)"

text \<open>
  The result of \<open>MACCommandParser.parse\<close>: the list it returns, the exceptions it passed
  to \<open>logging.warning\<close>, and the bytes it left unread.
\<close>

record parse_result =
  commands_result :: "MACCommand list"
  warnings :: "error list"
  unread :: bytes

function parse_loop :: "MACCommandDirection \<Rightarrow> bytes \<Rightarrow> MACCommand list \<Rightarrow> parse_result" where
  "parse_loop direction [] acc = \<lparr>commands_result = acc, warnings = [], unread = []\<rparr>"
| "parse_loop direction (cmd_index # commands_stream) acc =
     (case create commands_stream (uint cmd_index) direction of
        Inl e \<Rightarrow> \<lparr>commands_result = acc, warnings = [e],
                  unread = stream_after commands_stream (uint cmd_index) direction\<rparr>
      | Inr cmd \<Rightarrow>
          parse_loop direction (stream_after commands_stream (uint cmd_index) direction)
            (acc @ [cmd]))"
  by pat_completeness auto
termination
  by (relation "measure (\<lambda>(d, s, a). length s)")
     (auto simp: stream_after_def split: option.splits)

definition MACCommandParser_parse :: "bytes \<Rightarrow> MACCommandDirection \<Rightarrow> parse_result" where
  "MACCommandParser_parse commands_buffer direction = parse_loop direction commands_buffer []"

section \<open>bands\<close>

subsection \<open>bands/interface.py\<close>

text \<open>
  The channel-mask-control rows are instances of the \<open>ChMaskCtrl\<close> classes: each holds
  its \<open>index\<close>, a \<open>RangeChMaskCtrl\<close> also \<open>start\<close> and \<open>end\<close>.
\<close>

datatype ChMaskCtrl =
    RFUChMaskCtrl int
  | RangeChMaskCtrl int int int
  | On125kHzChMaskCtrl int
  | Off125kHzChMaskCtrl int
  | AllOnChMaskCtrl int

text \<open>
  \<open>row["type"]\<close>. None of the \<open>ChMaskCtrl\<close> classes defines \<open>__getitem__\<close>, so
  subscripting an instance raises TypeError whatever the key.
\<close>

definition ChMaskCtrl_getitem :: "ChMaskCtrl \<Rightarrow> string \<Rightarrow> error + string" where
  "ChMaskCtrl_getitem row key = Inl TypeError"

text \<open>
  \<open>Band.get_ch_mask_cntl_by_ch_index\<close>, the band's table passed in. Python's \<open>or\<close>
  evaluates the subscript only when the row exists.
\<close>

definition get_ch_mask_cntl_by_ch_index :: "(int \<rightharpoonup> ChMaskCtrl) \<Rightarrow> int \<Rightarrow> error + int" where
  "get_ch_mask_cntl_by_ch_index table_ch_mask_cntl_value index =
     (let table_index = index div 16 in
      case table_ch_mask_cntl_value table_index of
        None \<Rightarrow> Inl ChMaskCntlError
      | Some row \<Rightarrow>
          ebind (ChMaskCtrl_getitem row ''type'') (\<lambda>t.
            if t \<noteq> ''range'' then Inl ChMaskCntlError else Inr table_index))"

record DataRate =
  index :: int

record MaxPayloadSizeWithDwell =
  dr :: int
  n_dwell_0 :: "int option"
  n_dwell_1 :: "int option"

subsection \<open>bands/RP2\_1\_0\_2/us902\_928.py\<close>

definition US902_928_table_ch_mask_cntl_value :: "int \<rightharpoonup> ChMaskCtrl" where
  "US902_928_table_ch_mask_cntl_value = map_of
     [(0, RangeChMaskCtrl 0 0 15),
      (1, RangeChMaskCtrl 1 16 31),
      (2, RangeChMaskCtrl 2 32 47),
      (3, RangeChMaskCtrl 3 48 63),
      (4, RangeChMaskCtrl 4 64 71),
      (5, RFUChMaskCtrl 5),
      (6, On125kHzChMaskCtrl 6),
      (7, Off125kHzChMaskCtrl 7)]"

subsection \<open>bands/RP2\_1\_0\_3/au915\_928.py\<close>

definition AU915_928_table_ch_mask_cntl_value :: "int \<rightharpoonup> ChMaskCtrl" where
  "AU915_928_table_ch_mask_cntl_value = map_of
     [(0, RangeChMaskCtrl 0 0 15),
      (1, RangeChMaskCtrl 1 16 31),
      (2, RangeChMaskCtrl 2 32 47),
      (3, RangeChMaskCtrl 3 48 63),
      (4, RangeChMaskCtrl 4 64 71),
      (5, RFUChMaskCtrl 5),
      (6, On125kHzChMaskCtrl 6),
      (7, Off125kHzChMaskCtrl 7)]"

definition AU915_928_table_maximum_payload_size :: "int \<rightharpoonup> MaxPayloadSizeWithDwell" where
  "AU915_928_table_maximum_payload_size = map_of
     [(0, \<lparr>dr = 0, n_dwell_0 = Some 51, n_dwell_1 = None\<rparr>),
      (1, \<lparr>dr = 1, n_dwell_0 = Some 51, n_dwell_1 = None\<rparr>),
      (2, \<lparr>dr = 2, n_dwell_0 = Some 115, n_dwell_1 = Some 11\<rparr>),
      (3, \<lparr>dr = 3, n_dwell_0 = Some 222, n_dwell_1 = Some 53\<rparr>),
      (4, \<lparr>dr = 4, n_dwell_0 = Some 222, n_dwell_1 = Some 125\<rparr>),
      (5, \<lparr>dr = 5, n_dwell_0 = Some 222, n_dwell_1 = Some 222\<rparr>),
      (6, \<lparr>dr = 5, n_dwell_0 = Some 222, n_dwell_1 = Some 222\<rparr>),
      (7, \<lparr>dr = 5, n_dwell_0 = Some 50, n_dwell_1 = Some 50\<rparr>),
      (8, \<lparr>dr = 5, n_dwell_0 = Some 53, n_dwell_1 = Some 53\<rparr>),
      (9, \<lparr>dr = 5, n_dwell_0 = Some 129, n_dwell_1 = Some 129\<rparr>),
      (10, \<lparr>dr = 5, n_dwell_0 = Some 222, n_dwell_1 = Some 222\<rparr>),
      (11, \<lparr>dr = 5, n_dwell_0 = Some 222, n_dwell_1 = Some 222\<rparr>),
      (12, \<lparr>dr = 5, n_dwell_0 = Some 222, n_dwell_1 = Some 222\<rparr>),
      (13, \<lparr>dr = 5, n_dwell_0 = Some 222, n_dwell_1 = Some 222\<rparr>)]"

text \<open>
  \<open>AU915_928.get_max_payload_size\<close>. The table lookup comes first and raises KeyError
  for a datarate the table does not hold; the result is the column as stored, Python's
  \<open>None\<close> being \<open>None\<close> here.
\<close>

definition AU915_928_get_max_payload_size :: "DataRate \<Rightarrow> int \<Rightarrow> error + int option" where
  "AU915_928_get_max_payload_size datarate dwell_time =
     (case AU915_928_table_maximum_payload_size (index datarate) of
        None \<Rightarrow> Inl KeyError
      | Some max_size \<Rightarrow>
          if dwell_time = 0 then Inr (n_dwell_0 max_size)
          else if dwell_time = 1 then Inr (n_dwell_1 max_size)
          else Inl ValueError)"

subsection \<open>bands/RP2\_1\_0\_2/as923.py\<close>

definition AS923_table_maximum_payload_size :: "int \<rightharpoonup> MaxPayloadSizeWithDwell" where
  "AS923_table_maximum_payload_size = map_of
     [(0, \<lparr>dr = 0, n_dwell_0 = Some 51, n_dwell_1 = None\<rparr>),
      (1, \<lparr>dr = 1, n_dwell_0 = Some 51, n_dwell_1 = None\<rparr>),
      (2, \<lparr>dr = 2, n_dwell_0 = Some 51, n_dwell_1 = Some 11\<rparr>),
      (3, \<lparr>dr = 3, n_dwell_0 = Some 115, n_dwell_1 = Some 53\<rparr>),
      (4, \<lparr>dr = 4, n_dwell_0 = Some 222, n_dwell_1 = Some 125\<rparr>),
      (5, \<lparr>dr = 5, n_dwell_0 = Some 222, n_dwell_1 = Some 242\<rparr>),
      (6, \<lparr>dr = 6, n_dwell_0 = Some 222, n_dwell_1 = Some 242\<rparr>),
      (7, \<lparr>dr = 7, n_dwell_0 = Some 222, n_dwell_1 = Some 242\<rparr>)]"

definition AS923_get_max_payload_size :: "DataRate \<Rightarrow> int \<Rightarrow> error + int option" where
  "AS923_get_max_payload_size datarate dwell_time =
     (case AS923_table_maximum_payload_size (index datarate) of
        None \<Rightarrow> Inl KeyError
      | Some max_size \<Rightarrow>
          if dwell_time = 0 then Inr (n_dwell_0 max_size)
          else if dwell_time = 1 then Inr (n_dwell_1 max_size)
          else Inl ValueError)"

section \<open>common.py: device addresses and name lookup\<close>



text \<open>
  Name lookup in a function body of \<open>common.py\<close>: the parameters first, then the names
  the module binds (its imports, its class and its functions, in source order). A name
  found in neither raises NameError; no Python builtin has either of the names looked up
  below.
\<close>

definition common_globals :: "string list" where
  "common_globals =
     [''struct'', ''typing'', ''Enum'', ''ceil'', ''randint'',
      ''aes128_encrypt'', ''generate_mic'', ''LoRaError'',
      ''MACCommand'', ''MACCommandDirection'', ''MACCommandParser'',
      ''MHDR'', ''JoinAccept'', ''JoinRequest'', ''MACPayload'', ''MACPayloadDownlink'',
      ''PHYPayload'',
      ''TypeOfKey'', ''readable'', ''unreadable'', ''decrypt_frm_payload'',
      ''encrypt_frm_payload'', ''generate_mic_mac_payload'', ''generate_mic_join_request'',
      ''verify_mic_join_accept'', ''verify_mic_join_request'', ''verify_mic_mac_payload'',
      ''verify_mic_phy_payload'', ''generate_key'', ''generate_nwk_s_key'',
      ''generate_app_s_key'', ''calc_ping_offset'', ''generate_dev_addr_for_network'',
      ''extract_mac_commands'']"

definition load_name :: "string list \<Rightarrow> string \<Rightarrow> error + unit" where
  "load_name params name =
     (if name \<in> set params \<or> name \<in> set common_globals then Inr () else Inl (NameError name))"

text \<open>
  \<open>verify_mic_join_accept(join_accept, app_key)\<close>: its body is
  \<open>generate_mic_join_accept(phy_payload.mhdr, phy_payload.payload, app_key) == phy_payload.mic\<close>.
  Python loads the callee, then the arguments left to right, then the right-hand side; the
  comparison is reached only when every name resolved, and what it would compute is the
  argument \<open>verdict\<close>.
\<close>

definition verify_mic_join_accept :: "bool \<Rightarrow> 'j \<Rightarrow> bytes \<Rightarrow> error + bool" where
  "verify_mic_join_accept verdict join_accept app_key =
     (let params = [''join_accept'', ''app_key''] in
      ebind (load_name params ''generate_mic_join_accept'') (\<lambda>_.
      ebind (load_name params ''phy_payload'') (\<lambda>_.
      ebind (load_name params ''phy_payload'') (\<lambda>_.
      ebind (load_name params ''app_key'') (\<lambda>_.
      ebind (load_name params ''phy_payload'') (\<lambda>_.
        Inr verdict))))))"


section \<open>encryption.py\<close>

text \<open>
  The module wraps three calls of the Cryptodome library: AES in ECB mode, both
  directions, and AES-CMAC. The library is not part of the repository; it is the
  parameter \<open>cp\<close> of everything that encrypts or authenticates. What the wrappers add
  is written out: the library rejects a key whose length is not 16, 24 or 32 bytes and, in
  ECB mode, data whose length is not a multiple of the 16-byte block, both with ValueError.
\<close>

record cipher =
  ecb_encrypt :: "bytes \<Rightarrow> bytes \<Rightarrow> bytes"
  ecb_decrypt :: "bytes \<Rightarrow> bytes \<Rightarrow> bytes"
  cmac :: "bytes \<Rightarrow> bytes \<Rightarrow> bytes"

definition valid_key_length :: "bytes \<Rightarrow> bool" where
  "valid_key_length key = (length key = 16 \<or> length key = 24 \<or> length key = 32)"

definition aes128_cmac :: "cipher \<Rightarrow> bytes \<Rightarrow> bytes \<Rightarrow> error + bytes" where
  "aes128_cmac cp key message =
     (if valid_key_length key then Inr (cmac cp key message) else Inl ValueError)"

definition aes128_encrypt :: "cipher \<Rightarrow> bytes \<Rightarrow> bytes \<Rightarrow> error + bytes" where
  "aes128_encrypt cp key message =
     (if \<not> valid_key_length key then Inl ValueError
      else if length message mod 16 \<noteq> 0 then Inl ValueError
      else Inr (ecb_encrypt cp key message))"

definition aes128_decrypt :: "cipher \<Rightarrow> bytes \<Rightarrow> bytes \<Rightarrow> error + bytes" where
  "aes128_decrypt cp key message =
     (if \<not> valid_key_length key then Inl ValueError
      else if length message mod 16 \<noteq> 0 then Inl ValueError
      else Inr (ecb_decrypt cp key message))"

definition generate_mic :: "cipher \<Rightarrow> bytes \<Rightarrow> bytes \<Rightarrow> error + bytes" where
  "generate_mic cp key message = ebind (aes128_cmac cp key message) (\<lambda>t. Inr (take 4 t))"

text \<open>
  What a block cipher in ECB mode guarantees under the key \<open>key\<close>: both directions
  keep the length, and on whole blocks each undoes the other.
\<close>

definition block_cipher :: "cipher \<Rightarrow> bytes \<Rightarrow> bool" where
  "block_cipher cp key =
     (\<forall>m. length (ecb_encrypt cp key m) = length m \<and>
          length (ecb_decrypt cp key m) = length m \<and>
          (length m mod 16 = 0 \<longrightarrow>
             ecb_encrypt cp key (ecb_decrypt cp key m) = m \<and>
             ecb_decrypt cp key (ecb_encrypt cp key m) = m))"

text \<open>
  A stand-in for the library, to run the definitions on concrete frames: each byte is
  XORed with the first key byte in either direction, and the tag is sixteen copies of
  the XOR of all key and message bytes.
\<close>

definition xor_all :: "bytes \<Rightarrow> byte" where
  "xor_all bs = foldr (XOR) bs 0"

definition toy_cipher :: cipher where
  "toy_cipher =
     \<lparr>ecb_encrypt = (\<lambda>key m. map (\<lambda>b. b XOR hd key) m),
      ecb_decrypt = (\<lambda>key m. map (\<lambda>b. b XOR hd key) m),
      cmac = (\<lambda>key m. replicate 16 (xor_all (key @ m)))\<rparr>"

section \<open>message.py\<close>

datatype MType =
    MType_JoinRequest
  | MType_JoinAccept
  | MType_UnconfirmedDataUp
  | MType_UnconfirmedDataDown
  | MType_ConfirmedDataUp
  | MType_ConfirmedDataDown
  | MType_RFU
  | MType_Proprietary

fun MType_value :: "MType \<Rightarrow> int" where
  "MType_value MType_JoinRequest = 0x00"
| "MType_value MType_JoinAccept = 0x01"
| "MType_value MType_UnconfirmedDataUp = 0x02"
| "MType_value MType_UnconfirmedDataDown = 0x03"
| "MType_value MType_ConfirmedDataUp = 0x04"
| "MType_value MType_ConfirmedDataDown = 0x05"
| "MType_value MType_RFU = 0x06"
| "MType_value MType_Proprietary = 0x07"

text \<open>\<open>MType(v)\<close>: the member with that value, ValueError when there is none.\<close>

definition MType_of :: "int \<Rightarrow> error + MType" where
  "MType_of v =
     (if v = 0 then Inr MType_JoinRequest
      else if v = 1 then Inr MType_JoinAccept
      else if v = 2 then Inr MType_UnconfirmedDataUp
      else if v = 3 then Inr MType_UnconfirmedDataDown
      else if v = 4 then Inr MType_ConfirmedDataUp
      else if v = 5 then Inr MType_ConfirmedDataDown
      else if v = 6 then Inr MType_RFU
      else if v = 7 then Inr MType_Proprietary
      else Inl ValueError)"

subsection \<open>\<open>MHDR\<close>\<close>

record MHDR =
  mtype :: MType
  major :: int

definition MHDR_init :: "MType \<Rightarrow> int \<Rightarrow> error + MHDR" where
  "MHDR_init mt mj =
     (if \<not> (0 \<le> mj \<and> mj < 4) then Inl MHDRError else Inr \<lparr>mtype = mt, major = mj\<rparr>)"

definition MHDR_parse :: "bytes \<Rightarrow> error + MHDR" where
  "MHDR_parse raw =
     (if length raw \<noteq> 1 then Inl ParseMessageError
      else ebind (byte_at raw 0) (\<lambda>b0.
        ebind (MType_of (drop_bit 5 b0 AND 0b111)) (\<lambda>mt.
          MHDR_init mt (b0 AND 0b11))))"

text \<open>\<open>self.mtype.value << 5 | self.rfu << 2 | self.major\<close>, the property \<open>rfu\<close> being 0.\<close>

definition MHDR_generate :: "MHDR \<Rightarrow> error + bytes" where
  "MHDR_generate h =
     to_bytes_le 1 (push_bit 5 (MType_value (mtype h)) OR push_bit 2 0 OR major h)"

subsection \<open>\<open>FCtrlUplink\<close>, \<open>FCtrlDownlink\<close>\<close>

datatype FCtrl =
    FCtrlUplink (adr: bool) (adr_ack_req: bool) (ack: bool) (class_b: bool) (f_opts_len: int)
  | FCtrlDownlink (adr: bool) (ack: bool) (f_pending: bool) (f_opts_len: int)

definition FCtrlDownlink_parse :: "bytes \<Rightarrow> error + FCtrl" where
  "FCtrlDownlink_parse raw =
     ebind (byte_at raw 0) (\<lambda>b0.
       let opts_len = b0 AND 0x0F;
           pending = bool_of_int (b0 AND 0x10);
           ack' = bool_of_int (b0 AND 0x20);
           adr' = bool_of_int (b0 AND 0x80)
       in Inr (FCtrlDownlink adr' ack' pending opts_len))"

definition FCtrlUplink_parse :: "bytes \<Rightarrow> error + FCtrl" where
  "FCtrlUplink_parse raw =
     ebind (byte_at raw 0) (\<lambda>b0.
       let opts_len = b0 AND 0x0F;
           cls_b = bool_of_int (b0 AND 0x10);
           ack' = bool_of_int (b0 AND 0x20);
           ack_req = bool_of_int (b0 AND 0x40);
           adr' = bool_of_int (b0 AND 0x80)
       in Inr (FCtrlUplink adr' ack_req ack' cls_b opts_len))"

text \<open>\<open>(...).to_bytes(1, "big")\<close>: one byte, so the byte order does not matter.\<close>

fun FCtrl_generate :: "FCtrl \<Rightarrow> error + bytes" where
  "FCtrl_generate (FCtrlDownlink a k p n) =
     to_bytes_le 1 (push_bit 7 (int_of_bool a) OR push_bit 5 (int_of_bool k)
                    OR push_bit 4 (int_of_bool p) OR n)"
| "FCtrl_generate (FCtrlUplink a r k b n) =
     to_bytes_le 1 (push_bit 7 (int_of_bool a) OR push_bit 6 (int_of_bool r)
                    OR push_bit 5 (int_of_bool k) OR push_bit 4 (int_of_bool b) OR n)"

subsection \<open>\<open>FHDR\<close>\<close>

text \<open>
  \<open>FHDRUplink\<close> and \<open>FHDRDownlink\<close> differ in \<open>get_fctrl_cls\<close> only, and
  \<open>MACPayloadUplink\<close> and \<open>MACPayloadDownlink\<close> in \<open>get_fhdr_cls\<close> only: the subclass
  is the field \<open>link\<close>.
\<close>

datatype link = Uplink | Downlink

record FHDR =
  fhdr_link :: link
  dev_addr :: int
  f_ctrl :: FCtrl
  f_cnt :: int
  f_opts :: bytes

definition get_fctrl_cls :: "link \<Rightarrow> bytes \<Rightarrow> error + FCtrl" where
  "get_fctrl_cls l = (case l of Uplink \<Rightarrow> FCtrlUplink_parse | Downlink \<Rightarrow> FCtrlDownlink_parse)"

text \<open>
  \<open>FHDR.parse\<close> reads from a stream; \<open>read(n)\<close> gives up to \<open>n\<close> bytes. The result
  carries what is left of the stream.
\<close>

definition FHDR_parse :: "link \<Rightarrow> bytes \<Rightarrow> error + (FHDR \<times> bytes)" where
  "FHDR_parse l raw_stream =
     (let addr = from_bytes_le (take 4 raw_stream);
          s1 = drop 4 raw_stream
      in ebind (get_fctrl_cls l (take 1 s1)) (\<lambda>ctrl.
           let s2 = drop 1 s1;
               cnt = from_bytes_le (take 2 s2);
               s3 = drop 2 s2;
               opts = take (nat (f_opts_len ctrl)) s3
           in Inr (\<lparr>fhdr_link = l, dev_addr = addr, f_ctrl = ctrl, f_cnt = cnt, f_opts = opts\<rparr>,
                   drop (nat (f_opts_len ctrl)) s3)))"

definition FHDR_generate :: "FHDR \<Rightarrow> error + bytes" where
  "FHDR_generate h =
     bytes_cat (bytes_cat (bytes_cat (to_bytes_le 4 (dev_addr h)) (FCtrl_generate (f_ctrl h)))
                  (to_bytes_le 2 (f_cnt h)))
       (Inr (f_opts h))"

subsection \<open>\<open>MACPayload\<close>\<close>

record MACPayload =
  payload_link :: link
  fhdr :: FHDR
  f_port :: "int option"
  frm_payload :: bytes

text \<open>
  \<open>MACPayload.__init__\<close>: the two \<open>isinstance\<close> checks hold by typing, the check of
  the port is the one that can fail.
\<close>

definition MACPayload_init :: "link \<Rightarrow> FHDR \<Rightarrow> int option \<Rightarrow> bytes \<Rightarrow> error + MACPayload" where
  "MACPayload_init l h port buf =
     (if \<not> (case port of None \<Rightarrow> True | Some p \<Rightarrow> 0 \<le> p \<and> p < 256) then Inl MACPayloadError
      else Inr \<lparr>payload_link = l, fhdr = h, f_port = port, frm_payload = buf\<rparr>)"

text \<open>\<open>raw_stream.read(1) or None\<close>: the empty read is falsy, so the port is \<open>None\<close>.\<close>

definition MACPayload_parse :: "link \<Rightarrow> bytes \<Rightarrow> error + MACPayload" where
  "MACPayload_parse l raw =
     (if length raw < 7 then Inl ParseMessageError
      else ebind (FHDR_parse l raw) (\<lambda>(h, raw_stream).
        let port_bytes = take 1 raw_stream;
            port = (if port_bytes = [] then None else Some (from_bytes_le port_bytes));
            buf = drop 1 raw_stream
        in MACPayload_init l h port buf))"

definition MACPayload_generate :: "MACPayload \<Rightarrow> error + bytes" where
  "MACPayload_generate p =
     ebind (FHDR_generate (fhdr p)) (\<lambda>raw.
       case f_port p of
         None \<Rightarrow> Inr raw
       | Some port \<Rightarrow> ebind (to_bytes_le 1 port) (\<lambda>pb. Inr (raw @ pb @ frm_payload p)))"

subsection \<open>\<open>JoinRequest\<close>, \<open>Proprietary\<close>, \<open>PHYPayload\<close>\<close>

record JoinRequest =
  app_eui :: int
  dev_eui :: int
  dev_nonce :: int

definition JoinRequest_parse :: "bytes \<Rightarrow> error + JoinRequest" where
  "JoinRequest_parse raw =
     (if length raw \<noteq> 18 then Inl ParseMessageError
      else Inr \<lparr>app_eui = from_bytes_le (take 8 raw),
                dev_eui = from_bytes_le (take 8 (drop 8 raw)),
                dev_nonce = from_bytes_le (take 2 (drop 16 raw))\<rparr>)"

definition JoinRequest_generate :: "JoinRequest \<Rightarrow> error + bytes" where
  "JoinRequest_generate j =
     bytes_cat (bytes_cat (struct_pack_le 8 (app_eui j)) (struct_pack_le 8 (dev_eui j)))
       (struct_pack_le 2 (dev_nonce j))"

datatype Payload =
    Payload_MAC MACPayload
  | Payload_JoinRequest JoinRequest
  | Payload_Proprietary bytes

record PHYPayload =
  mhdr :: MHDR
  payload :: Payload
  mic :: "bytes option"

definition is_data_mtype :: "MType \<Rightarrow> bool" where
  "is_data_mtype mt =
     (mt = MType_UnconfirmedDataDown \<or> mt = MType_UnconfirmedDataUp \<or>
      mt = MType_ConfirmedDataDown \<or> mt = MType_ConfirmedDataUp)"

definition PHYPayload_init :: "MHDR \<Rightarrow> Payload \<Rightarrow> bytes option \<Rightarrow> error + PHYPayload" where
  "PHYPayload_init h p m =
     (if (mtype h = MType_Proprietary \<and> \<not> (case p of Payload_Proprietary _ \<Rightarrow> True | _ \<Rightarrow> False))
         \<or> (is_data_mtype (mtype h) \<and> \<not> (case p of Payload_MAC _ \<Rightarrow> True | _ \<Rightarrow> False))
         \<or> (mtype h = MType_JoinRequest \<and> \<not> (case p of Payload_JoinRequest _ \<Rightarrow> True | _ \<Rightarrow> False))
      then Inl PHYPayloadError
      else Inr \<lparr>mhdr = h, payload = p, mic = m\<rparr>)"

text \<open>\<open>raw[1:-4]\<close> and \<open>raw[-4:]\<close> on a buffer of at least five bytes.\<close>

definition PHYPayload_parse :: "bytes \<Rightarrow> error + PHYPayload" where
  "PHYPayload_parse raw =
     (if length raw < 5 then Inl ParseMessageError
      else ebind (MHDR_parse (take 1 raw)) (\<lambda>h.
        let body = drop 1 (take (length raw - 4) raw);
            tag = drop (length raw - 4) raw
        in if mtype h = MType_ConfirmedDataUp \<or> mtype h = MType_UnconfirmedDataUp then
             ebind (MACPayload_parse Uplink body) (\<lambda>p. PHYPayload_init h (Payload_MAC p) (Some tag))
           else if mtype h = MType_ConfirmedDataDown \<or> mtype h = MType_UnconfirmedDataDown then
             ebind (MACPayload_parse Downlink body) (\<lambda>p. PHYPayload_init h (Payload_MAC p) (Some tag))
           else if mtype h = MType_JoinRequest then
             ebind (JoinRequest_parse body) (\<lambda>p. PHYPayload_init h (Payload_JoinRequest p) (Some tag))
           else if mtype h = MType_Proprietary then
             PHYPayload_init h (Payload_Proprietary body) (Some tag)
           else Inl PHYPayloadError))"

fun Payload_generate :: "Payload \<Rightarrow> error + bytes" where
  "Payload_generate (Payload_MAC p) = MACPayload_generate p"
| "Payload_generate (Payload_JoinRequest j) = JoinRequest_generate j"
| "Payload_generate (Payload_Proprietary b) = Inr b"

text \<open>Concatenating \<open>None\<close> to bytes is a TypeError.\<close>

definition PHYPayload_generate :: "PHYPayload \<Rightarrow> error + bytes" where
  "PHYPayload_generate f =
     bytes_cat (bytes_cat (MHDR_generate (mhdr f)) (Payload_generate (payload f)))
       (case mic f of None \<Rightarrow> Inl TypeError | Some m \<Rightarrow> Inr m)"

subsection \<open>\<open>DLSettings\<close>, \<open>JoinAccept\<close>\<close>

record DLSettings =
  rx1_dr_offset :: int
  dl_rx2_datarate :: int

definition DLSettings_parse :: "bytes \<Rightarrow> error + DLSettings" where
  "DLSettings_parse raw =
     ebind (byte_at raw 0) (\<lambda>b0.
       let rx2 = b0 AND 0x0F; rx1 = drop_bit 4 b0 AND 0x07
       in Inr \<lparr>rx1_dr_offset = rx1, dl_rx2_datarate = rx2\<rparr>)"

definition DLSettings_generate :: "DLSettings \<Rightarrow> error + bytes" where
  "DLSettings_generate d = to_bytes_le 1 (push_bit 4 (rx1_dr_offset d) OR dl_rx2_datarate d)"

record JoinAccept =
  ja_app_nonce :: int
  ja_net_id :: int
  ja_dev_addr :: int
  ja_dl_settings :: DLSettings
  ja_rx_delay :: int
  ja_cf_list :: bytes

text \<open>
  The fields of a join-accept, read from the decrypted body: \<open>read(n)\<close> on a stream
  gives up to \<open>n\<close> bytes, and \<open>DLSettings.parse\<close> indexes the byte it is handed.
\<close>

definition JoinAccept_fields :: "bytes \<Rightarrow> error + JoinAccept" where
  "JoinAccept_fields body =
     (let nonce = from_bytes_le (take 3 body);
          nid = from_bytes_le (take 3 (drop 3 body));
          addr = from_bytes_le (take 4 (drop 6 body))
      in ebind (DLSettings_parse (take 1 (drop 10 body))) (\<lambda>dls.
           let delay' = from_bytes_le (take 1 (drop 11 body));
               cfl = drop 12 body
           in Inr \<lparr>ja_app_nonce = nonce, ja_net_id = nid, ja_dev_addr = addr, ja_dl_settings = dls,
                    ja_rx_delay = delay', ja_cf_list = cfl\<rparr>))"

text \<open>\<open>JoinAccept.parse\<close>: the wire body goes through the cipher's encryption.\<close>

definition JoinAccept_parse :: "cipher \<Rightarrow> bytes \<Rightarrow> bytes \<Rightarrow> error + JoinAccept" where
  "JoinAccept_parse cp raw app_key =
     (if length raw < 12 then Inl ParseMessageError
      else ebind (MHDR_parse (take 1 raw)) (\<lambda>h.
        if mtype h \<noteq> MType_JoinAccept then Inl ParseMessageError
        else ebind (aes128_encrypt cp app_key (drop 1 raw)) (\<lambda>decoded_raw.
          let tag = drop (length decoded_raw - 4) decoded_raw;
              body = take (length decoded_raw - 4) decoded_raw
          in ebind (MHDR_generate h) (\<lambda>hb.
               ebind (generate_mic cp app_key (hb @ body)) (\<lambda>expected.
                 if tag \<noteq> expected then Inl MICError else JoinAccept_fields body)))))"

definition JoinAccept_bytes :: "JoinAccept \<Rightarrow> error + bytes" where
  "JoinAccept_bytes j =
     bytes_cat (bytes_cat (bytes_cat (bytes_cat (bytes_cat
       (to_bytes_le 3 (ja_app_nonce j))
       (to_bytes_le 3 (ja_net_id j)))
       (to_bytes_le 4 (ja_dev_addr j)))
       (DLSettings_generate (ja_dl_settings j)))
       (to_bytes_le 1 (ja_rx_delay j)))
       (Inr (ja_cf_list j))"

text \<open>\<open>JoinAccept.generate\<close>: plaintext and tag go through the cipher's decryption.\<close>

definition JoinAccept_generate :: "cipher \<Rightarrow> JoinAccept \<Rightarrow> bytes \<Rightarrow> error + bytes" where
  "JoinAccept_generate cp j app_key =
     ebind (MHDR_init MType_JoinAccept 0) (\<lambda>h.
       ebind (JoinAccept_bytes j) (\<lambda>bytes_join_accept.
         ebind (MHDR_generate h) (\<lambda>bytes_mhdr.
           ebind (generate_mic cp app_key (bytes_mhdr @ bytes_join_accept)) (\<lambda>tag.
             ebind (aes128_decrypt cp app_key (bytes_join_accept @ tag))
               (\<lambda>encrypted_bytes_join_accept.
                 Inr (bytes_mhdr @ encrypted_bytes_join_accept))))))"

section \<open>common.py: payload cipher and frame MIC\<close>

text \<open>
  The loop of \<open>decrypt_frm_payload\<close> over \<open>range(k)\<close>: storing \<open>i + 1\<close> into the
  bytearray raises ValueError from 256 on; each block of the key stream is one call of
  \<open>aes128_encrypt\<close>.
\<close>

fun keystream :: "cipher \<Rightarrow> bytes \<Rightarrow> bytes \<Rightarrow> nat list \<Rightarrow> bytes \<Rightarrow> error + bytes" where
  "keystream cp key s_i [] s = Inr s"
| "keystream cp key s_i (i # rest) s =
     (if 256 \<le> i + 1 then Inl ValueError
      else ebind (aes128_encrypt cp key (s_i[15 := of_nat (i + 1)])) (\<lambda>block.
             keystream cp key s_i rest (s @ block)))"

text \<open>\<open>ceil(len(frm_payload) / 16)\<close>; the argument \<open>frm\<close> is the source's \<open>frm_payload\<close>.\<close>

definition block_count :: "bytes \<Rightarrow> nat" where
  "block_count frm = (length frm + 15) div 16"

definition decrypt_frm_payload ::
  "cipher \<Rightarrow> bytes \<Rightarrow> bytes \<Rightarrow> int \<Rightarrow> int \<Rightarrow> int \<Rightarrow> error + bytes" where
  "decrypt_frm_payload cp frm key dev_address counter direction =
     (let k = block_count frm in
      ebind (bytes_cat (bytes_cat (bytes_cat (Inr [0x01, 0x00, 0x00, 0x00, 0x00])
                                     (to_bytes_le 1 direction))
                          (bytes_cat (struct_pack_le 4 dev_address) (struct_pack_le 4 counter)))
               (Inr [0x00, 0x00])) (\<lambda>s_i.
        ebind (keystream cp key s_i [0..<k] []) (\<lambda>s.
          Inr (map (\<lambda>(a, b). a XOR b) (zip frm s)))))"

definition encrypt_frm_payload ::
  "cipher \<Rightarrow> bytes \<Rightarrow> bytes \<Rightarrow> int \<Rightarrow> int \<Rightarrow> int \<Rightarrow> error + bytes" where
  "encrypt_frm_payload cp frm key dev_address counter direction =
     decrypt_frm_payload cp frm key dev_address counter direction"




section \<open>Properties\<close>

subsection \<open>MAC commands\<close>

text \<open>
  C1. Re-parsing the body of \<open>cmd.generate()\<close> should give back \<open>cmd\<close> for every
  command, the \<open>DevStatusAns\<close> margin 0 included. \<open>DevStatusAns.generate\<close> tests
  \<open>margin > 0\<close>, so margin 0 takes the negative branch: it is written as
  \<open>0x3F\<close> (sign bit set, magnitude 31), and \<open>DevStatusAns.parse\<close> reads that byte as
  margin \<open>-32\<close>. The command with the constructor's own default margin does not
  survive the round trip.
\<close>

theorem DevStatusAns_margin_zero_roundtrip:
  "generate (DevStatusAns 255 0) = Inr [0x06, 0xFF, 0x3F] \<and>
   cls_parse C_DevStatusAns (drop 1 [0x06, 0xFF, 0x3F]) = Inr (DevStatusAns 255 (- 32))"
  by (simp add: bytes_of_def in_byte_range_def DevStatusAns_parse_def ebind_def byte_at_def
      bool_of_int_def)

text \<open>
  C8. On a well-formed buffer \<open>MACCommandParser.parse\<close> should return every command
  and consume the buffer. \<open>PingSlotChannelReq\<close> declares \<open>SIZE = 1\<close> while its
  \<open>generate\<close> writes four body bytes and its \<open>parse\<close> reads \<open>raw[3]\<close>: the parser
  hands \<open>parse\<close> a one-byte buffer, the IndexError is caught and logged, and the
  downlink buffer holding exactly one generated \<open>PingSlotChannelReq\<close> parses to the
  empty list with three bytes left unread.
\<close>

theorem MACCommandParser_parse_PingSlotChannelReq:
  "generate (PingSlotChannelReq_init 3 0x123456) = Inr [0x11, 0x56, 0x34, 0x12, 0x03] \<and>
   MACCommandParser_parse [0x11, 0x56, 0x34, 0x12, 0x03] DOWN =
     \<lparr>commands_result = [], warnings = [IndexError], unread = [0x34, 0x12, 0x03]\<rparr>"
  by (simp add: PingSlotChannelReq_init_def bytes_cat_def to_bytes_le_def ebind_def
      numeral_3_eq_3 MACCommandParser_parse_def create_def mac_commands_map_def read_def
      PingSlotChannelReq_parse_def byte_at_def stream_after_def)

subsection \<open>Regional bands\<close>

text \<open>
  C2. \<open>get_ch_mask_cntl_by_ch_index\<close> should return \<open>index // 16\<close> when that row of
  the table is a range entry (rows 0, 0, 1, 4 for the indices 0, 15, 16, 71 of a band
  with 72 channels) and raise \<open>ChMaskCntlError\<close> otherwise. The rows are
  \<open>ChMaskCtrl\<close> objects, and the function subscripts the row with \<open>["type"]\<close>: for
  every index whose row exists the call ends in TypeError, for the range rows of
  US902-928 and AU915-928 as for index 72.
\<close>

theorem get_ch_mask_cntl_by_ch_index_TypeError:
  "get_ch_mask_cntl_by_ch_index US902_928_table_ch_mask_cntl_value 0 = Inl TypeError \<and>
   get_ch_mask_cntl_by_ch_index US902_928_table_ch_mask_cntl_value 15 = Inl TypeError \<and>
   get_ch_mask_cntl_by_ch_index US902_928_table_ch_mask_cntl_value 16 = Inl TypeError \<and>
   get_ch_mask_cntl_by_ch_index US902_928_table_ch_mask_cntl_value 71 = Inl TypeError \<and>
   get_ch_mask_cntl_by_ch_index US902_928_table_ch_mask_cntl_value 72 = Inl TypeError \<and>
   get_ch_mask_cntl_by_ch_index AU915_928_table_ch_mask_cntl_value 0 = Inl TypeError \<and>
   get_ch_mask_cntl_by_ch_index AU915_928_table_ch_mask_cntl_value 71 = Inl TypeError"
  by (simp add: get_ch_mask_cntl_by_ch_index_def US902_928_table_ch_mask_cntl_value_def
      AU915_928_table_ch_mask_cntl_value_def ChMaskCtrl_getitem_def ebind_def)

lemma datarate_index_cases:
  "0 \<le> (i::int) \<Longrightarrow> i \<le> 13 \<Longrightarrow> i \<in> {0, 1, 2, 3, 4, 5, 6, 7, 8, 9, 10, 11, 12, 13}"
  by (simp; arith)

lemma AU915_928_dwell_ValueError:
  assumes "0 \<le> index d" "index d \<le> 13" "dw \<noteq> 0" "dw \<noteq> 1"
  shows "AU915_928_get_max_payload_size d dw = Inl ValueError"
  using datarate_index_cases [OF assms(1,2)] assms(3,4)
  by (auto simp add: AU915_928_get_max_payload_size_def AU915_928_table_maximum_payload_size_def)

lemma AS923_dwell_ValueError:
  assumes "0 \<le> index d" "index d \<le> 7" "dw \<noteq> 0" "dw \<noteq> 1"
  shows "AS923_get_max_payload_size d dw = Inl ValueError"
proof -
  have "index d \<in> {0, 1, 2, 3, 4, 5, 6, 7}"
    using assms(1,2) by (simp; arith)
  then show ?thesis
    using assms(3,4)
    by (auto simp add: AS923_get_max_payload_size_def AS923_table_maximum_payload_size_def)
qed

text \<open>
  C4, as the claim states it: looking up the dwell-1 column where it is undefined (DR0,
  DR1) is an error. It is not: the call returns the stored \<open>None\<close>.
\<close>

theorem get_max_payload_size_undefined_returns_None:
  "AU915_928_get_max_payload_size \<lparr>index = 0\<rparr> 1 = Inr None \<and>
   AS923_get_max_payload_size \<lparr>index = 1\<rparr> 1 = Inr None"
  by (simp add: AU915_928_get_max_payload_size_def AU915_928_table_maximum_payload_size_def
      AS923_get_max_payload_size_def AS923_table_maximum_payload_size_def)

text \<open>
  C4, amended. For a datarate that the band's payload table holds (index 0 to 13 for
  AU915-928, 0 to 7 for AS923), a dwell time other than 0 and 1 raises ValueError; with
  dwell time 1 the datarates 0 and 1, whose dwell-1 column is undefined, give \<open>None\<close>
  and no error.
\<close>

theorem get_max_payload_size_dwell:
  "(0 \<le> index d \<and> index d \<le> 13 \<and> dw \<noteq> 0 \<and> dw \<noteq> 1 \<longrightarrow>
      AU915_928_get_max_payload_size d dw = Inl ValueError) \<and>
   (0 \<le> index d \<and> index d \<le> 7 \<and> dw \<noteq> 0 \<and> dw \<noteq> 1 \<longrightarrow>
      AS923_get_max_payload_size d dw = Inl ValueError) \<and>
   (index d = 0 \<or> index d = 1 \<longrightarrow>
      AU915_928_get_max_payload_size d 1 = Inr None \<and>
      AS923_get_max_payload_size d 1 = Inr None)"
proof (intro conjI impI)
  assume "0 \<le> index d \<and> index d \<le> 13 \<and> dw \<noteq> 0 \<and> dw \<noteq> 1"
  then show "AU915_928_get_max_payload_size d dw = Inl ValueError"
    by (simp add: AU915_928_dwell_ValueError)
next
  assume "0 \<le> index d \<and> index d \<le> 7 \<and> dw \<noteq> 0 \<and> dw \<noteq> 1"
  then show "AS923_get_max_payload_size d dw = Inl ValueError"
    by (simp add: AS923_dwell_ValueError)
next
  assume "index d = 0 \<or> index d = 1"
  then show "AU915_928_get_max_payload_size d 1 = Inr None"
    by (auto simp add: AU915_928_get_max_payload_size_def
        AU915_928_table_maximum_payload_size_def)
next
  assume "index d = 0 \<or> index d = 1"
  then show "AS923_get_max_payload_size d 1 = Inr None"
    by (auto simp add: AS923_get_max_payload_size_def AS923_table_maximum_payload_size_def)
qed

theorem get_max_payload_size_dwell_witness:
  "AU915_928_get_max_payload_size \<lparr>index = 0\<rparr> 2 = Inl ValueError \<and>
   AS923_get_max_payload_size \<lparr>index = 0\<rparr> 2 = Inl ValueError \<and>
   AU915_928_get_max_payload_size \<lparr>index = 0\<rparr> 1 = Inr None \<and>
   AS923_get_max_payload_size \<lparr>index = 0\<rparr> 1 = Inr None"
  using get_max_payload_size_dwell [of "\<lparr>index = 0\<rparr>" 2] by simp

subsection \<open>common.py\<close>

text \<open>
  C10. \<open>verify_mic_join_accept\<close> never returns a verdict: whatever its arguments, and
  whatever the comparison would give, the call raises NameError. The first name that fails
  is the callee \<open>generate_mic_join_accept\<close>, which the module does not define either;
  the name \<open>phy_payload\<close> that the body uses for its parameter is unbound as well.
\<close>

theorem verify_mic_join_accept_NameError:
  "verify_mic_join_accept verdict join_accept app_key =
     Inl (NameError ''generate_mic_join_accept'') \<and>
   load_name [''join_accept'', ''app_key''] ''phy_payload'' = Inl (NameError ''phy_payload'')"
  by (simp add: verify_mic_join_accept_def load_name_def common_globals_def ebind_def)








subsection \<open>Frames\<close>

text \<open>Little-endian byte strings of a fixed width, on numerals.\<close>

lemma le_bytes_numeral [simp]:
  "le_bytes (numeral n) x = word_of_int (x mod 256) # le_bytes (pred_numeral n) (x div 256)"
  by (simp add: numeral_eq_Suc)

lemma le_bytes_one [simp]: "le_bytes 1 x = [word_of_int (x mod 256)]"
  by (simp add: One_nat_def)

text \<open>
  C7, as the claim states it: a \<open>MACPayload\<close> without a port and with a non-empty
  application buffer cannot be constructed. The constructor checks the range of the port and
  nothing about the buffer, and builds exactly that value.
\<close>

theorem MACPayload_init_port_absent_buffer_nonempty:
  "MACPayload_init Uplink
     \<lparr>fhdr_link = Uplink, dev_addr = 1, f_ctrl = FCtrlUplink False False False False 0,
      f_cnt = 5, f_opts = []\<rparr> None [0x2A]
   = Inr \<lparr>payload_link = Uplink,
          fhdr = \<lparr>fhdr_link = Uplink, dev_addr = 1,
                  f_ctrl = FCtrlUplink False False False False 0, f_cnt = 5, f_opts = []\<rparr>,
          f_port = None, frm_payload = [0x2A]\<rparr>"
  by (simp add: MACPayload_init_def)

lemma MACPayload_parse_port_None:
  assumes "MACPayload_parse l raw = Inr p" "f_port p = None"
  shows "frm_payload p = []"
  using assms
  by (auto simp add: MACPayload_parse_def MACPayload_init_def ebind_def Let_def
      split: if_splits sum.splits prod.splits)

lemma MACPayload_generate_port_None:
  assumes "MACPayload_generate p = Inr out" "f_port p = None"
  shows "FHDR_generate (fhdr p) = Inr out"
  using assms by (auto simp add: MACPayload_generate_def ebind_def split: sum.splits)

lemma to_bytes_le_1: "to_bytes_le (Suc 0) x = Inr pb \<Longrightarrow> pb = [word_of_int x]"
  by (auto simp add: to_bytes_le_def split: if_splits)

lemma MACPayload_generate_port_Some:
  assumes "MACPayload_generate p = Inr out" "f_port p = Some port"
  shows "\<exists>hb. FHDR_generate (fhdr p) = Inr hb \<and> out = hb @ [word_of_int port] @ frm_payload p"
  using assms
  by (auto simp add: MACPayload_generate_def ebind_def split: sum.splits dest!: to_bytes_le_1)

text \<open>
  C7, amended. What \<open>MACPayload.parse\<close> returns has an empty application buffer
  whenever it has no port; \<open>generate\<close> writes the bytes of the frame header alone
  when the port is absent, and the header, the port byte and the buffer, in that order,
  when it is present. The constructor does not enforce the relation.
\<close>

theorem MACPayload_port_buffer:
  "(MACPayload_parse l raw = Inr p \<and> f_port p = None \<longrightarrow> frm_payload p = []) \<and>
   (MACPayload_generate p = Inr out \<and> f_port p = None \<longrightarrow> FHDR_generate (fhdr p) = Inr out) \<and>
   (MACPayload_generate p = Inr out \<and> f_port p = Some port \<longrightarrow>
      (\<exists>hb. FHDR_generate (fhdr p) = Inr hb \<and> out = hb @ [word_of_int port] @ frm_payload p))"
  using MACPayload_parse_port_None MACPayload_generate_port_None MACPayload_generate_port_Some
  by blast

lemma MACPayload_parse_example: "MACPayload_parse Uplink [1, 0, 0, 0, 0, 5, 0] =
     Inr \<lparr>payload_link = Uplink,
          fhdr = \<lparr>fhdr_link = Uplink, dev_addr = 1,
                  f_ctrl = FCtrlUplink False False False False 0, f_cnt = 5, f_opts = []\<rparr>,
          f_port = None, frm_payload = []\<rparr>"
  by (simp add: MACPayload_parse_def FHDR_parse_def get_fctrl_cls_def FCtrlUplink_parse_def
      byte_at_def ebind_def bool_of_int_def MACPayload_init_def Let_def)

lemma MACPayload_generate_example_no_port: "MACPayload_generate
     \<lparr>payload_link = Uplink,
      fhdr = \<lparr>fhdr_link = Uplink, dev_addr = 1,
              f_ctrl = FCtrlUplink False False False False 0, f_cnt = 5, f_opts = []\<rparr>,
      f_port = None, frm_payload = []\<rparr> = Inr [1, 0, 0, 0, 0, 5, 0]"
  by (simp add: MACPayload_generate_def FHDR_generate_def bytes_cat_def to_bytes_le_def
      ebind_def int_of_bool_def)


lemma MACPayload_generate_example_port: "MACPayload_generate
     \<lparr>payload_link = Uplink,
      fhdr = \<lparr>fhdr_link = Uplink, dev_addr = 1,
              f_ctrl = FCtrlUplink False False False False 0, f_cnt = 5, f_opts = []\<rparr>,
      f_port = Some 0, frm_payload = [0x2A]\<rparr> = Inr [1, 0, 0, 0, 0, 5, 0, 0, 0x2A]"
  by (simp add: MACPayload_generate_def FHDR_generate_def bytes_cat_def to_bytes_le_def
      ebind_def int_of_bool_def)

theorem MACPayload_port_buffer_witness:
  "frm_payload \<lparr>payload_link = Uplink,
      fhdr = \<lparr>fhdr_link = Uplink, dev_addr = 1,
              f_ctrl = FCtrlUplink False False False False 0, f_cnt = 5, f_opts = []\<rparr>,
      f_port = None, frm_payload = []\<rparr> = [] \<and>
   FHDR_generate \<lparr>fhdr_link = Uplink, dev_addr = 1,
              f_ctrl = FCtrlUplink False False False False 0, f_cnt = 5, f_opts = []\<rparr>
     = Inr [1, 0, 0, 0, 0, 5, 0] \<and>
   (\<exists>hb. FHDR_generate \<lparr>fhdr_link = Uplink, dev_addr = 1,
              f_ctrl = FCtrlUplink False False False False 0, f_cnt = 5, f_opts = []\<rparr> = Inr hb \<and>
         [1, 0, 0, 0, 0, 5, 0, 0, 0x2A] = hb @ [word_of_int 0] @ [0x2A])"
  using MACPayload_port_buffer [of Uplink "[1, 0, 0, 0, 0, 5, 0]"
      "\<lparr>payload_link = Uplink,
        fhdr = \<lparr>fhdr_link = Uplink, dev_addr = 1,
                f_ctrl = FCtrlUplink False False False False 0, f_cnt = 5, f_opts = []\<rparr>,
        f_port = None, frm_payload = []\<rparr>" "[1, 0, 0, 0, 0, 5, 0]" 0]
    MACPayload_port_buffer [of Uplink "[]"
      "\<lparr>payload_link = Uplink,
        fhdr = \<lparr>fhdr_link = Uplink, dev_addr = 1,
                f_ctrl = FCtrlUplink False False False False 0, f_cnt = 5, f_opts = []\<rparr>,
        f_port = Some 0, frm_payload = [0x2A]\<rparr>" "[1, 0, 0, 0, 0, 5, 0, 0, 0x2A]" 0]
    MACPayload_parse_example MACPayload_generate_example_no_port MACPayload_generate_example_port
  by simp

subsection \<open>Frame MIC\<close>












subsection \<open>Payload cipher\<close>

lemma aes128_encrypt_error: "aes128_encrypt cp key m = Inl e \<Longrightarrow> e = ValueError"
  by (auto simp add: aes128_encrypt_def split: if_splits)

lemma keystream_counter_overflow:
  assumes "\<exists>i \<in> set counters. 255 \<le> i"
  shows "keystream cp key s_i counters s = Inl ValueError"
  using assms
proof (induction counters arbitrary: s)
  case Nil
  then show ?case by simp
next
  case (Cons i rest)
  show ?case
  proof (cases "256 \<le> i + 1")
    case True
    then show ?thesis by simp
  next
    case False
    with Cons.prems have rest: "\<exists>j \<in> set rest. 255 \<le> j" by auto
    show ?thesis
    proof (cases "aes128_encrypt cp key (s_i[15 := of_nat (i + 1)])")
      case (Inl e)
      then show ?thesis using False aes128_encrypt_error [OF Inl] by (simp add: ebind_def)
    next
      case (Inr block)
      then show ?thesis using False Cons.IH [OF rest] by (simp add: ebind_def)
    qed
  qed
qed

lemma counter_block:
  assumes "0 \<le> direction" "direction < 256" "0 \<le> dev_address" "dev_address < 2 ^ 32"
    "0 \<le> counter" "counter < 2 ^ 32"
  shows "\<exists>s_i. bytes_cat (bytes_cat (bytes_cat (Inr [0x01, 0x00, 0x00, 0x00, 0x00])
                                     (to_bytes_le 1 direction))
                          (bytes_cat (struct_pack_le 4 dev_address) (struct_pack_le 4 counter)))
               (Inr [0x00, 0x00]) = Inr s_i \<and> length s_i = 16"
  using assms
  by (simp add: bytes_cat_def ebind_def to_bytes_le_def struct_pack_le_def)

lemma decrypt_frm_payload_too_long:
  assumes "4080 < length frm"
    and "0 \<le> direction" "direction < 256" "0 \<le> dev_address" "dev_address < 2 ^ 32"
    "0 \<le> counter" "counter < 2 ^ 32"
  shows "decrypt_frm_payload cp frm key dev_address counter direction = Inl ValueError"
proof -
  from counter_block [OF assms(2-7)] obtain s_i where
    s_i: "bytes_cat (bytes_cat (bytes_cat (Inr [0x01, 0x00, 0x00, 0x00, 0x00])
                                     (to_bytes_le 1 direction))
                          (bytes_cat (struct_pack_le 4 dev_address) (struct_pack_le 4 counter)))
               (Inr [0x00, 0x00]) = Inr s_i" by blast
  have "255 < block_count frm" using assms(1) by (simp add: block_count_def)
  then have "\<exists>i \<in> set [0..<block_count frm]. 255 \<le> i" by auto
  from keystream_counter_overflow [OF this]
  show ?thesis
    unfolding decrypt_frm_payload_def Let_def s_i by (simp add: ebind_def)
qed

lemma keystream_blocks:
  assumes key: "valid_key_length key"
    and len: "\<And>m. length (ecb_encrypt cp key m) = length m"
    and s_i: "length s_i = 16"
    and small: "\<forall>i \<in> set counters. i < 255"
  shows "\<exists>ks. keystream cp key s_i counters s = Inr (s @ ks) \<and> length ks = 16 * length counters"
  using small
proof (induction counters arbitrary: s)
  case Nil
  then show ?case by simp
next
  case (Cons i rest)
  let ?block = "ecb_encrypt cp key (s_i[15 := of_nat (i + 1)])"
  have enc: "aes128_encrypt cp key (s_i[15 := of_nat (i + 1)]) = Inr ?block"
    using key s_i by (simp add: aes128_encrypt_def)
  have blen: "length ?block = 16" using len s_i by simp
  from Cons.prems have "\<forall>j \<in> set rest. j < 255" by simp
  from Cons.IH [OF this, of "s @ ?block"]
  obtain ks where ks: "keystream cp key s_i rest (s @ ?block) = Inr ((s @ ?block) @ ks)"
    "length ks = 16 * length rest" by blast
  have "i < 255" using Cons.prems by simp
  then have "keystream cp key s_i (i # rest) s = Inr (s @ (?block @ ks))"
    using enc ks(1) by (simp add: ebind_def)
  moreover have "length (?block @ ks) = 16 * length (i # rest)"
    using blen ks(2) by simp
  ultimately show ?case by blast
qed

lemma xor_zip_involution:
  "length p \<le> length ks \<Longrightarrow>
   map (\<lambda>(a, b). a XOR b) (zip (map (\<lambda>(a, b). a XOR b) (zip p ks)) ks) = (p :: bytes)"
proof (induction p arbitrary: ks)
  case Nil
  then show ?case by simp
next
  case (Cons a p)
  then obtain b ks' where "ks = b # ks'" by (cases ks) auto
  with Cons show ?case by (simp add: xor.assoc)
qed

text \<open>
  C5, amended. For a 16-byte key, a 32-bit device address and frame counter, a one-byte
  direction and a payload of at most 4080 bytes (255 key-stream blocks, the block counter
  being one byte), and whatever block cipher the library provides,
  \<open>decrypt_frm_payload\<close> returns, applying it again to its result gives the payload
  back, and \<open>encrypt_frm_payload\<close> is the same function.
\<close>

theorem decrypt_frm_payload_involution:
  assumes key: "length key = 16"
    and cipher: "block_cipher cp key"
    and rng: "0 \<le> dev_address" "dev_address < 2 ^ 32" "0 \<le> counter" "counter < 2 ^ 32"
      "0 \<le> direction" "direction < 256"
    and len: "length frm \<le> 4080"
  shows "\<exists>c. decrypt_frm_payload cp frm key dev_address counter direction = Inr c \<and>
             decrypt_frm_payload cp c key dev_address counter direction = Inr frm \<and>
             encrypt_frm_payload cp frm key dev_address counter direction = Inr c \<and>
             encrypt_frm_payload cp = decrypt_frm_payload cp"
proof -
  from counter_block [OF rng(5,6,1,2,3,4)] obtain s_i where
    s_i: "bytes_cat (bytes_cat (bytes_cat (Inr [0x01, 0x00, 0x00, 0x00, 0x00])
                                     (to_bytes_le 1 direction))
                          (bytes_cat (struct_pack_le 4 dev_address) (struct_pack_le 4 counter)))
               (Inr [0x00, 0x00]) = Inr s_i" "length s_i = 16" by blast
  have vk: "valid_key_length key" using key by (simp add: valid_key_length_def)
  have elen: "\<And>m. length (ecb_encrypt cp key m) = length m"
    using cipher by (simp add: block_cipher_def)
  have k: "block_count frm \<le> 255" using len by (simp add: block_count_def)
  then have small: "\<forall>i \<in> set [0..<block_count frm]. i < 255" by auto
  from keystream_blocks [OF vk elen s_i(2) small, of "[]"]
  obtain ks where ks: "keystream cp key s_i [0..<block_count frm] [] = Inr ks"
    "length ks = 16 * block_count frm" by auto
  have cover: "length frm \<le> length ks"
    unfolding ks(2) block_count_def by arith
  define c where "c = map (\<lambda>(a, b). a XOR b) (zip frm ks)"
  have clen: "length c = length frm" using cover by (simp add: c_def)
  have d1: "decrypt_frm_payload cp frm key dev_address counter direction = Inr c"
    unfolding decrypt_frm_payload_def Let_def s_i(1)
    by (simp add: ks(1) ebind_def c_def)
  have "block_count c = block_count frm" by (simp add: block_count_def clen)
  then have d2: "decrypt_frm_payload cp c key dev_address counter direction = Inr frm"
    using xor_zip_involution [OF cover]
    unfolding decrypt_frm_payload_def Let_def s_i(1)
    by (simp add: ks(1) ebind_def c_def)
  have same: "encrypt_frm_payload cp = decrypt_frm_payload cp"
    by (intro ext) (simp add: encrypt_frm_payload_def)
  show ?thesis using d1 d2 same by simp
qed


lemma block_cipher_toy_cipher: "block_cipher toy_cipher key"
  by (simp add: block_cipher_def toy_cipher_def o_def xor.assoc)

text \<open>
  C5, as the claim states it, holds for every payload. From 4081 bytes on the loop stores
  256 into a byte of the counter block and the call raises ValueError, with any cipher
  (\<open>decrypt_frm_payload_too_long\<close>); here with the stand-in.
\<close>

theorem decrypt_frm_payload_4081_bytes:
  "decrypt_frm_payload toy_cipher (replicate 4081 0x00) (replicate 16 0x11) 1 5 0
     = Inl ValueError"
  using decrypt_frm_payload_too_long [of "replicate 4081 0x00" 0 1 5 toy_cipher "replicate 16 0x11"]
  by simp

theorem decrypt_frm_payload_involution_witness:
  "\<exists>c. decrypt_frm_payload toy_cipher (replicate 17 0x2A) (replicate 16 0x11) 1 5 0 = Inr c \<and>
       decrypt_frm_payload toy_cipher c (replicate 16 0x11) 1 5 0 = Inr (replicate 17 0x2A) \<and>
       encrypt_frm_payload toy_cipher (replicate 17 0x2A) (replicate 16 0x11) 1 5 0 = Inr c \<and>
       encrypt_frm_payload toy_cipher = decrypt_frm_payload toy_cipher"
  using decrypt_frm_payload_involution [of "replicate 16 0x11" toy_cipher 1 5 0 "replicate 17 0x2A"]
    block_cipher_toy_cipher [of "replicate 16 0x11"]
  by simp

text \<open>The cipher run on 17 zero bytes: the key stream of two blocks, cut to length.\<close>

lemma decrypt_frm_payload_example: "decrypt_frm_payload toy_cipher (replicate 17 0x00) (replicate 16 0x11) 1 5 0 =
   Inr [0x10,0x11,0x11,0x11,0x11,0x11,0x10,0x11,0x11,0x11,0x14,0x11,0x11,0x11,0x11,0x10,0x10]"
  by code_simp

end
